theory Spec2Isabelle
  imports Main "HOL-Library.Sublist"
begin

section \<open>Python values used by the script\<close>

text \<open>
  A Python \<open>str\<close> is a sequence of Unicode code points; it is modelled as a list of
  natural numbers.  \<open>str\<close> turns an ASCII literal into such a list; characters beyond
  ASCII are written as their code point.  Python \<open>bytes\<close> are HOL strings (lists of
  8-bit characters).
\<close>

type_synonym pystr = "nat list"

definition str :: "string \<Rightarrow> pystr" where
  "str s = map of_char s"

datatype pyerror =
    StreamlitAPIException
  | UnicodeEncodeError
  | AttributeError
  | ValueError
  | ServiceError pystr

text \<open>\<open>not API_KEY\<close> for the result of \<open>os.getenv\<close>: \<open>None\<close> and the empty string are falsy.\<close>

definition py_not :: "pystr option \<Rightarrow> bool" where
  "py_not v = (case v of None \<Rightarrow> True | Some s \<Rightarrow> s = [])"

text \<open>
  \<open>s.replace(old, new)\<close> where \<open>old\<close> and \<open>new\<close> are single characters, as at the one
  call site \<open>app_name.replace(' ', '_')\<close>.
\<close>

definition replace :: "nat \<Rightarrow> nat \<Rightarrow> pystr \<Rightarrow> pystr" where
  "replace old new s = map (\<lambda>c. if c = old then new else c) s"

text \<open>
  \<open>str.isspace\<close> on one character (the code points CPython treats as whitespace) and
  \<open>str.strip()\<close> without arguments.
\<close>

definition isspace :: "nat \<Rightarrow> bool" where
  "isspace c =
     (c \<in> {9, 10, 11, 12, 13, 28, 29, 30, 31, 32, 133, 160, 5760,
            8232, 8233, 8239, 8287, 12288}
      \<or> (8192 \<le> c \<and> c \<le> 8202))"

definition strip :: "pystr \<Rightarrow> pystr" where
  "strip s = rev (dropWhile isspace (rev (dropWhile isspace s)))"

text \<open>
  \<open>s.encode("utf-8")\<close>.  A surrogate code point cannot be encoded and raises
  \<open>UnicodeEncodeError\<close>; a number above \<open>0x10FFFF\<close> is no code point of any Python string
  and is rejected the same way.
\<close>

definition utf8 :: "nat \<Rightarrow> pyerror + string" where
  "utf8 c =
     (if c < 128 then Inr [char_of c]
      else if c < 2048 then Inr [char_of (192 + c div 64), char_of (128 + c mod 64)]
      else if 55296 \<le> c \<and> c \<le> 57343 then Inl UnicodeEncodeError
      else if c < 65536 then
        Inr [char_of (224 + c div 4096), char_of (128 + c div 64 mod 64),
             char_of (128 + c mod 64)]
      else if c < 1114112 then
        Inr [char_of (240 + c div 262144), char_of (128 + c div 4096 mod 64),
             char_of (128 + c div 64 mod 64), char_of (128 + c mod 64)]
      else Inl UnicodeEncodeError)"

fun encode :: "pystr \<Rightarrow> pyerror + string" where
  "encode [] = Inr []"
| "encode (c # cs) =
     (case utf8 c of
        Inl e \<Rightarrow> Inl e
      | Inr b \<Rightarrow> (case encode cs of Inl e \<Rightarrow> Inl e | Inr bs \<Rightarrow> Inr (b @ bs)))"

subsection \<open>The clock\<close>

text \<open>
  The value of \<open>datetime.now()\<close>, and \<open>strftime\<close> for the one format the script uses,
  \<open>'%Y%m%d_%H%M%S'\<close>: the year in four digits, every other field in two, zero padded.
  The digits are right for a \<open>valid_datetime\<close>; for the years 1000 to 9999 every
  platform prints \<open>%Y\<close> as exactly these four digits.
\<close>

record datetime =
  year :: nat
  month :: nat
  day :: nat
  hour :: nat
  minute :: nat
  second :: nat

definition valid_datetime :: "datetime \<Rightarrow> bool" where
  "valid_datetime d =
     (1000 \<le> year d \<and> year d \<le> 9999 \<and> 1 \<le> month d \<and> month d \<le> 12 \<and>
      1 \<le> day d \<and> day d \<le> 31 \<and> hour d < 24 \<and> minute d < 60 \<and> second d < 60)"

definition digits2 :: "nat \<Rightarrow> pystr" where
  "digits2 n = [48 + n div 10, 48 + n mod 10]"

definition digits4 :: "nat \<Rightarrow> pystr" where
  "digits4 n = [48 + n div 1000, 48 + n div 100 mod 10, 48 + n div 10 mod 10, 48 + n mod 10]"

definition strftime :: "datetime \<Rightarrow> pystr" where
  "strftime d =
     digits4 (year d) @ digits2 (month d) @ digits2 (day d) @ str ''_'' @
     digits2 (hour d) @ digits2 (minute d) @ digits2 (second d)"

section \<open>The world the script runs in\<close>

text \<open>
  What a script run leaves on the page, in order.  A download button carries its label,
  its data, its file name and its MIME type.
\<close>

datatype element =
    StError pystr
  | StWarning pystr
  | StTitle pystr
  | StSubheader pystr
  | StWrite pystr
  | StMarkdown pystr
  | StSpinner pystr
  | StDownloadButton pystr string pystr pystr

text \<open>
  \<open>session_state\<close> is Streamlit's per-session dictionary; \<open>genai_api_key\<close> is the key
  given to \<open>genai.configure\<close>, if it was ever called; \<open>requests\<close> lists every call of
  \<open>generate_content\<close> made so far, as the model name and the prompt; \<open>page\<close> holds the
  elements the current run has rendered.
\<close>

record world =
  session_state :: "string \<rightharpoonup> pystr"
  genai_api_key :: "pystr option"
  requests :: "(pystr \<times> pystr) list"
  page :: "element list"

definition render :: "element \<Rightarrow> world \<Rightarrow> world" where
  "render e w = w\<lparr>page := page w @ [e]\<rparr>"

text \<open>
  The object \<open>generate_content\<close> returns is seen by the script through two observations
  only: its truth value (\<open>if response\<close>) and its attribute \<open>text\<close>, which may raise.
  \<open>None\<close> and the empty string are falsy and have no such attribute; a response object of
  the library is truthy.
\<close>

record response =
  response_bool :: bool
  response_text :: "pyerror + pystr"

definition py_None :: response where
  "py_None = \<lparr>response_bool = False, response_text = Inl AttributeError\<rparr>"

definition py_empty_str :: response where
  "py_empty_str = \<lparr>response_bool = False, response_text = Inl AttributeError\<rparr>"

definition gemini_response :: "pystr \<Rightarrow> response" where
  "gemini_response t = \<lparr>response_bool = True, response_text = Inr t\<rparr>"

text \<open>
  The external model: given the configured key, the earlier requests, the model name and
  the prompt, it returns an object or raises.
\<close>

type_synonym provider =
  "pystr option \<Rightarrow> (pystr \<times> pystr) list \<Rightarrow> pystr \<Rightarrow> pystr \<Rightarrow> pyerror + response"

section \<open>Helper functions\<close>

definition prd_prompt :: "pystr \<Rightarrow> pystr \<Rightarrow> pystr \<Rightarrow> pystr \<Rightarrow> pystr" where
  "prd_prompt app_name app_idea app_type language =
     (str ''\<newline>''
      @ str ''    You are an expert product manager. Create a **Product Requirements Document (PRD)** \<newline>''
      @ str ''    for the following app idea. The PRD should be clear, structured, and tailored \<newline>''
      @ str ''    to the app type and description provided.\<newline>''
      @ str ''\<newline>''
      @ str ''    App Name: '')
     @ app_name @
     (str ''\<newline>''
      @ str ''    App Type: '')
     @ app_type @
     (str ''\<newline>''
      @ str ''    Description: '')
     @ app_idea @
     (str ''\<newline>''
      @ str ''\<newline>''
      @ str ''    Structure the PRD with these sections:\<newline>''
      @ str ''    1. Overview\<newline>''
      @ str ''    2. Essential Core Features\<newline>''
      @ str ''    3. Tech Stack\<newline>''
      @ str ''    4. Design Preferences\<newline>''
      @ str ''    5. All Screens/Pages\<newline>''
      @ str ''    6. App Menu and Navigation Structure\<newline>''
      @ str ''    7. User Flow\<newline>''
      @ str ''    8. Monetization Strategy\<newline>''
      @ str ''    9. Risks & Challenges\<newline>''
      @ str ''    10. Roadmap (MVP ''
      @ [8594]
      @ str '' Future Releases)\<newline>''
      @ str ''\<newline>''
      @ str ''    Language: '')
     @ language @
     (str ''\<newline>''
      @ str ''    '')"

definition generate_prd ::
  "provider \<Rightarrow> pystr \<Rightarrow> pystr \<Rightarrow> pystr \<Rightarrow> pystr \<Rightarrow> world \<Rightarrow> (pyerror + pystr) \<times> world" where
  "generate_prd generate_content app_name app_idea app_type language w =
     (let prompt = prd_prompt app_name app_idea app_type language;
          model = str ''gemini-1.5-flash'';
          w' = w\<lparr>requests := requests w @ [(model, prompt)]\<rparr>
      in case generate_content (genai_api_key w) (requests w) model prompt of
           Inl e \<Rightarrow> (Inl e, w')
         | Inr response \<Rightarrow>
             (if response_bool response then response_text response
              else Inr ([9888, 65039] @ str '' No response from Gemini.''), w'))"

definition plan_prompt :: "pystr \<Rightarrow> pystr \<Rightarrow> pystr" where
  "plan_prompt prd_text language =
     (str ''\<newline>''
      @ str ''    You are a senior software architect. Carefully read the PRD below and \<newline>''
      @ str ''    generate a **unique, PRD-specific step-by-step implementation plan**.\<newline>''
      @ str ''\<newline>''
      @ str ''    --- PRD START ---\<newline>''
      @ str ''    '')
     @ prd_text @
     (str ''\<newline>''
      @ str ''    --- PRD END ---\<newline>''
      @ str ''\<newline>''
      @ str ''    Rules for the implementation plan:\<newline>''
      @ str ''    - Break the plan into logical phases (e.g., Frontend, Backend, AI Integration, Authentication, Testing, Deployment, Optimization). \<newline>''
      @ str ''      Only include phases that are relevant to THIS PRD.\<newline>''
      @ str ''    - For each phase, provide:\<newline>''
      @ str ''      ''
      @ [8226]
      @ str '' Objectives  \<newline>''
      @ str ''      ''
      @ [8226]
      @ str '' Detailed Tasks (must reference actual features, APIs, and technologies mentioned in the PRD)  \<newline>''
      @ str ''      ''
      @ [8226]
      @ str '' Deliverables  \<newline>''
      @ str ''    - Do NOT create generic filler tasks. All tasks must map directly to the PRD.\<newline>''
      @ str ''    - If the PRD specifies unique tools (e.g., Supabase, Firebase, OCR API, OpenAI), mention them explicitly in tasks.\<newline>''
      @ str ''    - If the PRD is lightweight, reduce the number of phases but go deeper into tasks.\<newline>''
      @ str ''    - Ensure the final roadmap looks like a professional execution plan tailored to this project.\<newline>''
      @ str ''\<newline>''
      @ str ''    Language: '')
     @ language @
     (str ''\<newline>''
      @ str ''    '')"

definition generate_plan ::
  "provider \<Rightarrow> pystr \<Rightarrow> pystr \<Rightarrow> world \<Rightarrow> (pyerror + pystr) \<times> world" where
  "generate_plan generate_content prd_text language w =
     (let prompt = plan_prompt prd_text language;
          model = str ''gemini-1.5-flash'';
          w' = w\<lparr>requests := requests w @ [(model, prompt)]\<rparr>
      in case generate_content (genai_api_key w) (requests w) model prompt of
           Inl e \<Rightarrow> (Inl e, w')
         | Inr response \<Rightarrow>
             (if response_bool response then response_text response
              else Inr ([9888, 65039] @ str '' No response from Gemini.''), w'))"

section \<open>The Streamlit script\<close>

text \<open>
  Streamlit runs the whole script from top to bottom on every user interaction.  The
  values the widgets return in one run are the run's inputs: the text fields, the
  selections, and for each button whether it was the one clicked.  \<open>in_prd_input\<close> is
  what the user typed into the "PRD Input" text area, \<open>None\<close> while the area still shows
  its default.
\<close>

datatype app_type_option = WebApp | MobileApp | Hybrid | AITool | IoTApp

datatype language_option = English | Hindi | Telugu

datatype export_format_option = Markdown | Text

fun app_type_label :: "app_type_option \<Rightarrow> pystr" where
  "app_type_label WebApp = str ''Web App''"
| "app_type_label MobileApp = str ''Mobile App''"
| "app_type_label Hybrid = str ''Hybrid''"
| "app_type_label AITool = str ''AI Tool''"
| "app_type_label IoTApp = str ''IoT App''"

fun language_label :: "language_option \<Rightarrow> pystr" where
  "language_label English = str ''English''"
| "language_label Hindi = str ''Hindi''"
| "language_label Telugu = str ''Telugu''"

record inputs =
  in_app_name :: pystr
  in_app_idea :: pystr
  in_app_type :: app_type_option
  in_language :: language_option
  in_export_format :: export_format_option
  in_generate_prd :: bool
  in_prd_input :: "pystr option"
  in_plan_language :: language_option
  in_generate_plan :: bool

text \<open>
  What the script reads from outside in one run: the environment variable after
  \<open>load_dotenv()\<close>, the external model, the clock at the two places that read it, and
  whether the installed Streamlit insists that \<open>set_page_config\<close> is the first Streamlit
  command of a run (a release that does raises \<open>StreamlitAPIException\<close> when another
  command came first; a release that does not accepts the call anywhere).
\<close>

record env =
  GOOGLE_API_KEY :: "pystr option"
  generate_content :: provider
  now_tab1 :: datetime
  now_tab2 :: datetime
  page_config_first :: bool

definition set_page_config :: "bool \<Rightarrow> world \<Rightarrow> pyerror + world" where
  "set_page_config strict w =
     (if strict \<and> page w \<noteq> [] then Inl StreamlitAPIException else Inr w)"

text \<open>
  \<open>st.markdown(body)\<close> sends the text to the browser encoded as UTF-8: a text that cannot
  be encoded raises \<open>UnicodeEncodeError\<close>, and nothing is rendered.
\<close>

definition st_markdown :: "pystr \<Rightarrow> world \<Rightarrow> pyerror + world" where
  "st_markdown body w =
     (case encode body of Inl e \<Rightarrow> Inl e | Inr b \<Rightarrow> Inr (render (StMarkdown body) w))"

text \<open>\<open>st.session_state.get("last_prd", "")\<close>, the default of the "PRD Input" text area.\<close>

definition prd_input_default :: "world \<Rightarrow> pystr" where
  "prd_input_default w = (case session_state w ''last_prd'' of None \<Rightarrow> [] | Some v \<Rightarrow> v)"

text \<open>A text area returns its default until the user has typed something else.\<close>

definition text_area :: "pystr \<Rightarrow> pystr option \<Rightarrow> pystr" where
  "text_area dflt typed = (case typed of None \<Rightarrow> dflt | Some v \<Rightarrow> v)"

subsection \<open>Tab 1: PRD generator\<close>

definition tab1 :: "provider \<Rightarrow> datetime \<Rightarrow> inputs \<Rightarrow> world \<Rightarrow> pyerror option \<times> world" where
  "tab1 gc now i w =
     (let w1 = render (StSubheader ([128196] @ str '' Generate Product Requirements Document (PRD)'')) w;
          app_name = in_app_name i;
          app_idea = in_app_idea i;
          app_type = app_type_label (in_app_type i);
          language = language_label (in_language i);
          export_format = in_export_format i
      in if in_generate_prd i then
           if app_idea = [] \<or> app_name = [] then
             (None, render (StWarning ([9888, 65039] @ str '' Please enter both App Name and Description.'')) w1)
           else
             (case generate_prd gc app_name app_idea app_type language
                     (render (StSpinner (str ''Generating PRD... '' @ [9203])) w1) of
                (Inl e, w2) \<Rightarrow> (Some e, w2)
              | (Inr prd_output, w2) \<Rightarrow>
                  (let w3 = render (StSubheader ([128209] @ str '' Generated PRD'')) w2
                   in case st_markdown prd_output w3 of
                        Inl e \<Rightarrow> (Some e, w3)
                      | Inr w4 \<Rightarrow>
                          (let w5 = w4\<lparr>session_state :=
                                        (session_state w4)(''last_prd'' \<mapsto> prd_output)\<rparr>;
                               file_name = replace 32 95 app_name @ str ''_PRD_'' @ strftime now
                           in case encode prd_output of
                                Inl e \<Rightarrow> (Some e, w5)
                              | Inr file_content \<Rightarrow>
                                  (if export_format = Markdown then
                                     (None, render (StDownloadButton
                                        ([11015, 65039] @ str '' Download PRD (Markdown)'')
                                        file_content (file_name @ str ''.md'')
                                        (str ''text/markdown'')) w5)
                                   else
                                     (None, render (StDownloadButton
                                        ([11015, 65039] @ str '' Download PRD (Text)'')
                                        file_content (file_name @ str ''.txt'')
                                        (str ''text/plain'')) w5)))))
         else (None, w1))"

subsection \<open>Tab 2: implementation plan generator\<close>

text \<open>
  The selectbox of tab 2 has the key \<open>plan_lang\<close>: Streamlit keeps the value of a keyed
  widget in \<open>session_state\<close> under that key.
\<close>

definition tab2 :: "provider \<Rightarrow> datetime \<Rightarrow> inputs \<Rightarrow> world \<Rightarrow> pyerror option \<times> world" where
  "tab2 gc now i w =
     (let w1 = render (StSubheader ([128640] @ str '' Generate Project Implementation Plan'')) w;
          w2 = render (StWrite (str ''Paste a PRD below or use the one you just generated in Tab 1.'')) w1;
          prd_input = text_area (prd_input_default w2) (in_prd_input i);
          plan_language = language_label (in_plan_language i);
          w3 = w2\<lparr>session_state := (session_state w2)(''plan_lang'' \<mapsto> plan_language)\<rparr>
      in if in_generate_plan i then
           if strip prd_input = [] then
             (None, render (StWarning ([9888, 65039] @ str '' Please provide a PRD to generate a plan.'')) w3)
           else
             (case generate_plan gc prd_input plan_language
                     (render (StSpinner (str ''Generating Implementation Plan... '' @ [9203])) w3) of
                (Inl e, w4) \<Rightarrow> (Some e, w4)
              | (Inr plan_output, w4) \<Rightarrow>
                  (let w5 = render (StSubheader ([128202] @ str '' Generated Implementation Plan'')) w4
                   in case st_markdown plan_output w5 of
                        Inl e \<Rightarrow> (Some e, w5)
                      | Inr w6 \<Rightarrow>
                          (let file_name = str ''ImplementationPlan_'' @ strftime now
                           in case encode plan_output of
                                Inl e \<Rightarrow> (Some e, w6)
                              | Inr file_content \<Rightarrow>
                                  (None, render (StDownloadButton
                                     ([11015, 65039] @ str '' Download Plan (Markdown)'')
                                     file_content (file_name @ str ''.md'')
                                     (str ''text/markdown'')) w6))))
         else (None, w3))"

subsection \<open>One run of the script, and a session of runs\<close>

text \<open>
  A run starts with an empty page.  An exception that no one catches ends the run where
  it is raised; Streamlit keeps the session state as it was at that moment.
\<close>

definition startup :: "env \<Rightarrow> world \<Rightarrow> pyerror option \<times> world" where
  "startup e w =
     (let w0 = w\<lparr>page := []\<rparr>;
          API_KEY = GOOGLE_API_KEY e;
          w1 = (if py_not API_KEY
                then render (StError ([10060] @ str '' GOOGLE_API_KEY not set in .env file.'')) w0
                else w0\<lparr>genai_api_key := API_KEY\<rparr>)
      in case set_page_config (page_config_first e) w1 of
           Inl ex \<Rightarrow> (Some ex, w1)
         | Inr w2 \<Rightarrow>
             (None, render (StTitle ([128196] @ str '' PRD & '' @ [128640]
                                      @ str '' Implementation Plan Generator'')) w2))"

definition script :: "env \<Rightarrow> inputs \<Rightarrow> world \<Rightarrow> pyerror option \<times> world" where
  "script e i w =
     (case startup e w of
        (Some ex, w1) \<Rightarrow> (Some ex, w1)
      | (None, w3) \<Rightarrow>
          (case tab1 (generate_content e) (now_tab1 e) i w3 of
             (Some ex, w4) \<Rightarrow> (Some ex, w4)
           | (None, w4) \<Rightarrow> tab2 (generate_content e) (now_tab2 e) i w4))"

fun session :: "(env \<times> inputs) list \<Rightarrow> world \<Rightarrow> world" where
  "session [] w = w"
| "session ((e, i) # steps) w = session steps (snd (script e i w))"

section \<open>Notions the properties speak about\<close>

text \<open>The file names of the download buttons on a page, in order.\<close>

fun file_names :: "element list \<Rightarrow> pystr list" where
  "file_names [] = []"
| "file_names (StDownloadButton label content name mime # es) = name # file_names es"
| "file_names (x # es) = file_names es"

text \<open>
  The text of the PRD generation that completes when tab 1 runs in world \<open>w\<close>: the button
  was clicked, both fields passed the check, and \<open>generate_prd\<close> returned a text rather
  than raising.  \<open>None\<close> when no PRD generation completes.
\<close>

definition prd_completed :: "provider \<Rightarrow> inputs \<Rightarrow> world \<Rightarrow> pystr option" where
  "prd_completed gc i w =
     (if in_generate_prd i \<and> in_app_idea i \<noteq> [] \<and> in_app_name i \<noteq> [] then
        (case fst (generate_prd gc (in_app_name i) (in_app_idea i)
                     (app_type_label (in_app_type i)) (language_label (in_language i)) w) of
           Inl e \<Rightarrow> None
         | Inr prd_output \<Rightarrow> Some prd_output)
      else None)"

text \<open>A text that \<open>st.markdown\<close> accepts: it has an encoding in UTF-8.\<close>

definition displayable :: "pystr \<Rightarrow> bool" where
  "displayable t = (case encode t of Inl e \<Rightarrow> False | Inr b \<Rightarrow> True)"

text \<open>The same for a whole run of the script: tab 1 runs only if the start-up code did not raise.\<close>

definition prd_result :: "env \<Rightarrow> inputs \<Rightarrow> world \<Rightarrow> pystr option" where
  "prd_result e i w =
     (case startup e w of
        (Some ex, w1) \<Rightarrow> None
      | (None, w3) \<Rightarrow> prd_completed (generate_content e) i w3)"

text \<open>No run of a session completes a PRD generation.\<close>

fun no_prd_result :: "(env \<times> inputs) list \<Rightarrow> world \<Rightarrow> bool" where
  "no_prd_result [] w = True"
| "no_prd_result ((e, i) # steps) w =
     (prd_result e i w = None \<and> no_prd_result steps (snd (script e i w)))"

text \<open>The messages of the error boxes on a page, in order.\<close>

fun error_messages :: "element list \<Rightarrow> pystr list" where
  "error_messages [] = []"
| "error_messages (StError message # es) = message # error_messages es"
| "error_messages (x # es) = error_messages es"

text \<open>
  The shape \<open>YYYYMMDD_HHMMSS\<close>: eight decimal digits, an underscore, six decimal digits.
\<close>

definition isdigit :: "nat \<Rightarrow> bool" where
  "isdigit c = (48 \<le> c \<and> c \<le> 57)"

definition timestamp_format :: "pystr \<Rightarrow> bool" where
  "timestamp_format ts =
     (length ts = 15 \<and> list_all isdigit (take 8 ts) \<and> ts ! 8 = 95 \<and> list_all isdigit (drop 9 ts))"

subsection \<open>Concrete inputs\<close>

definition world0 :: world where
  "world0 = \<lparr>session_state = Map.empty, genai_api_key = None, requests = [], page = []\<rparr>"

definition null_provider :: provider where
  "null_provider key earlier model prompt = Inr py_None"

definition empty_provider :: provider where
  "empty_provider key earlier model prompt = Inr py_empty_str"

definition fixed_provider :: provider where
  "fixed_provider key earlier model prompt = Inr (gemini_response (str ''# TaskFlow''))"

definition failing_provider :: provider where
  "failing_provider key earlier model prompt = Inl (ServiceError (str ''quota''))"

definition a_moment :: datetime where
  "a_moment = \<lparr>year = 2024, month = 3, day = 9, hour = 14, minute = 5, second = 7\<rparr>"

definition taskflow :: inputs where
  "taskflow =
     \<lparr>in_app_name = str ''TaskFlow'', in_app_idea = str ''A todo app'', in_app_type = WebApp,
      in_language = English, in_export_format = Markdown, in_generate_prd = True,
      in_prd_input = None, in_plan_language = English, in_generate_plan = False\<rparr>"

definition keyed_env :: env where
  "keyed_env =
     \<lparr>GOOGLE_API_KEY = Some (str ''secret''), generate_content = fixed_provider,
      now_tab1 = a_moment, now_tab2 = a_moment, page_config_first = True\<rparr>"

definition keyless_env :: env where
  "keyless_env =
     \<lparr>GOOGLE_API_KEY = None, generate_content = fixed_provider,
      now_tab1 = a_moment, now_tab2 = a_moment, page_config_first = False\<rparr>"

definition plan_click :: inputs where
  "plan_click = taskflow\<lparr>in_generate_prd := False, in_generate_plan := True\<rparr>"

section \<open>Basic facts\<close>

lemma render_simps [simp]:
  "page (render x w) = page w @ [x]"
  "requests (render x w) = requests w"
  "session_state (render x w) = session_state w"
  "genai_api_key (render x w) = genai_api_key w"
  by (simp_all add: render_def)

lemma generate_prd_snd:
  "snd (generate_prd gc n d c l w) =
     w\<lparr>requests := requests w @ [(str ''gemini-1.5-flash'', prd_prompt n d c l)]\<rparr>"
  by (simp add: generate_prd_def Let_def split: sum.split)

lemma generate_plan_snd:
  "snd (generate_plan gc t l w) =
     w\<lparr>requests := requests w @ [(str ''gemini-1.5-flash'', plan_prompt t l)]\<rparr>"
  by (simp add: generate_plan_def Let_def split: sum.split)

lemma generate_prd_fst_render:
  "fst (generate_prd gc n d c l (render x w)) = fst (generate_prd gc n d c l w)"
  by (simp add: generate_prd_def Let_def split: sum.split)

lemma generate_plan_fst_render:
  "fst (generate_plan gc t l (render x w)) = fst (generate_plan gc t l w)"
  by (simp add: generate_plan_def Let_def split: sum.split)

lemma tab1_requests:
  "requests (snd (tab1 gc now i w)) =
     (if in_generate_prd i \<and> in_app_idea i \<noteq> [] \<and> in_app_name i \<noteq> []
      then requests w @ [(str ''gemini-1.5-flash'',
             prd_prompt (in_app_name i) (in_app_idea i) (app_type_label (in_app_type i))
               (language_label (in_language i)))]
      else requests w)"
  unfolding tab1_def st_markdown_def Let_def
  by (simp add: case_prod_beta generate_prd_snd split: sum.split)

lemma tab2_requests:
  "requests (snd (tab2 gc now i w)) =
     (if in_generate_plan i \<and> strip (text_area (prd_input_default w) (in_prd_input i)) \<noteq> []
      then requests w @ [(str ''gemini-1.5-flash'',
             plan_prompt (text_area (prd_input_default w) (in_prd_input i))
               (language_label (in_plan_language i)))]
      else requests w)"
  unfolding tab2_def st_markdown_def Let_def
  by (simp add: case_prod_beta generate_plan_snd prd_input_default_def split: sum.split)

lemma str_eq_Nil [simp]: "(str s = []) = (s = [])"
  by (simp add: str_def)

lemma strip_eq_Nil: "(strip s = []) = (\<forall>c\<in>set s. isspace c)"
proof
  assume "strip s = []"
  then have all: "\<forall>c\<in>set (dropWhile isspace s). isspace c"
    by (simp add: strip_def)
  have "dropWhile isspace s = []"
  proof (rule ccontr)
    assume ne: "dropWhile isspace s \<noteq> []"
    then have "\<not> isspace (hd (dropWhile isspace s))" by (rule hd_dropWhile)
    moreover have "hd (dropWhile isspace s) \<in> set (dropWhile isspace s)" using ne by simp
    ultimately show False using all by blast
  qed
  then show "\<forall>c\<in>set s. isspace c" by simp
next
  assume "\<forall>c\<in>set s. isspace c"
  then have d: "dropWhile isspace s = []" by simp
  show "strip s = []" unfolding strip_def d by simp
qed

lemma tab1_rejected:
  "in_generate_prd i \<Longrightarrow> in_app_name i = [] \<or> in_app_idea i = [] \<Longrightarrow>
   tab1 gc now i w =
     (None, render (StWarning ([9888, 65039] @ str '' Please enter both App Name and Description.''))
              (render (StSubheader ([128196] @ str '' Generate Product Requirements Document (PRD)'')) w))"
  unfolding tab1_def st_markdown_def Let_def by auto

lemma tab2_rejected:
  "in_generate_plan i \<Longrightarrow> strip (text_area (prd_input_default w) (in_prd_input i)) = [] \<Longrightarrow>
   tab2 gc now i w =
     (None, render (StWarning ([9888, 65039] @ str '' Please provide a PRD to generate a plan.''))
              ((render (StWrite (str ''Paste a PRD below or use the one you just generated in Tab 1.''))
                 (render (StSubheader ([128640] @ str '' Generate Project Implementation Plan'')) w))
               \<lparr>session_state := (session_state w)(''plan_lang'' \<mapsto> language_label (in_plan_language i))\<rparr>))"
  unfolding tab2_def st_markdown_def Let_def by (simp add: prd_input_default_def)

lemma tab2_last_prd:
  "session_state (snd (tab2 gc now i w)) ''last_prd'' = session_state w ''last_prd''"
  unfolding tab2_def st_markdown_def Let_def
  by (simp add: case_prod_beta generate_plan_snd split: sum.split)

lemma tab1_last_prd:
  "session_state (snd (tab1 gc now i w)) ''last_prd'' =
     (case prd_completed gc i w of
        None \<Rightarrow> session_state w ''last_prd''
      | Some R \<Rightarrow> if displayable R then Some R else session_state w ''last_prd'')"
  unfolding tab1_def st_markdown_def prd_completed_def displayable_def Let_def
  by (simp add: case_prod_beta generate_prd_snd generate_prd_fst_render split: sum.split)

lemma startup_frame:
  "session_state (snd (startup e w)) = session_state w"
  "requests (snd (startup e w)) = requests w"
  unfolding startup_def Let_def set_page_config_def
  by (simp_all split: sum.split)

lemma script_last_prd:
  "session_state (snd (script e i w)) ''last_prd'' =
     (case prd_result e i w of
        None \<Rightarrow> session_state w ''last_prd''
      | Some R \<Rightarrow> if displayable R then Some R else session_state w ''last_prd'')"
proof (cases "startup e w")
  case (Pair ex w3)
  have ss: "session_state w3 = session_state w"
    using startup_frame(1) [of e w] Pair by simp
  show ?thesis
  proof (cases ex)
    case None
    show ?thesis
    proof (cases "tab1 (generate_content e) (now_tab1 e) i w3")
      case (Pair ex1 w4)
      have w4: "session_state w4 ''last_prd'' =
          (case prd_completed (generate_content e) i w3 of
             None \<Rightarrow> session_state w ''last_prd''
           | Some R \<Rightarrow> if displayable R then Some R else session_state w ''last_prd'')"
        using tab1_last_prd [of "generate_content e" "now_tab1 e" i w3] Pair ss
        by (simp split: option.split)
      show ?thesis
        using w4 Pair None \<open>startup e w = (ex, w3)\<close>
        by (cases ex1) (simp_all add: script_def prd_result_def tab2_last_prd)
    qed
  next
    case (Some x)
    then show ?thesis using Pair ss by (simp add: script_def prd_result_def)
  qed
qed

lemma session_no_prd_result:
  "no_prd_result steps w \<Longrightarrow>
   session_state (session steps w) ''last_prd'' = session_state w ''last_prd''"
proof (induction steps arbitrary: w)
  case Nil
  then show ?case by simp
next
  case (Cons step steps)
  obtain e i where step: "step = (e, i)" by (cases step)
  from Cons.prems step have none: "prd_result e i w = None"
    and rest: "no_prd_result steps (snd (script e i w))" by simp_all
  have "session_state (session steps (snd (script e i w))) ''last_prd''
        = session_state (snd (script e i w)) ''last_prd''"
    using Cons.IH [OF rest] .
  also have "\<dots> = session_state w ''last_prd''"
    using script_last_prd [of e i w] none by simp
  finally show ?case using step by simp
qed

lemma file_names_append: "file_names (xs @ ys) = file_names xs @ file_names ys"
  by (induction xs rule: file_names.induct) simp_all

lemma error_messages_append: "error_messages (xs @ ys) = error_messages xs @ error_messages ys"
  by (induction xs rule: error_messages.induct) simp_all

lemma tab1_file_names:
  "in_generate_prd i \<Longrightarrow> in_app_name i \<noteq> [] \<Longrightarrow> in_app_idea i \<noteq> [] \<Longrightarrow>
   fst (tab1 gc now i w) = None \<longrightarrow>
   file_names (page (snd (tab1 gc now i w))) =
     file_names (page w) @
       [replace 32 95 (in_app_name i) @ str ''_PRD_'' @ strftime now @
          (if in_export_format i = Markdown then str ''.md'' else str ''.txt'')]"
  unfolding tab1_def st_markdown_def Let_def
  by (simp add: case_prod_beta generate_prd_snd file_names_append split: sum.split)

lemma tab2_file_names:
  "in_generate_plan i \<Longrightarrow> strip (text_area (prd_input_default w) (in_prd_input i)) \<noteq> [] \<Longrightarrow>
   fst (tab2 gc now i w) = None \<longrightarrow>
   file_names (page (snd (tab2 gc now i w))) =
     file_names (page w) @ [str ''ImplementationPlan_'' @ strftime now @ str ''.md'']"
  unfolding tab2_def st_markdown_def Let_def
  by (simp add: case_prod_beta generate_plan_snd file_names_append prd_input_default_def
        split: sum.split)

lemma digits2_isdigit: "n < 100 \<Longrightarrow> list_all isdigit (digits2 n)"
  by (simp add: digits2_def isdigit_def) arith

lemma digits4_isdigit: "n < 10000 \<Longrightarrow> list_all isdigit (digits4 n)"
  by (simp add: digits4_def isdigit_def) arith

lemma strftime_format: "valid_datetime d \<Longrightarrow> timestamp_format (strftime d)"
proof -
  assume v: "valid_datetime d"
  have y: "list_all isdigit (digits4 (year d))"
    using v by (intro digits4_isdigit) (simp add: valid_datetime_def)
  have m: "list_all isdigit (digits2 (month d))" and dd: "list_all isdigit (digits2 (day d))"
    and h: "list_all isdigit (digits2 (hour d))" and mi: "list_all isdigit (digits2 (minute d))"
    and s: "list_all isdigit (digits2 (second d))"
    using v by (auto intro!: digits2_isdigit simp: valid_datetime_def)
  have l4: "length (digits4 n) = 4" and l2: "length (digits2 n) = 2" for n
    by (simp_all add: digits4_def digits2_def)
  have u: "str ''_'' = [95]" by (simp add: str_def)
  show ?thesis
    unfolding timestamp_format_def strftime_def u
    using y m dd h mi s by (simp add: l4 l2 nth_append)
qed

lemma replace_pointwise:
  "length (replace old new s) = length s
   \<and> (\<forall>k<length s. replace old new s ! k = (if s ! k = old then new else s ! k))"
  by (simp add: replace_def)

lemma startup_absent_strict:
  "py_not (GOOGLE_API_KEY e) \<Longrightarrow> page_config_first e \<Longrightarrow>
   startup e w =
     (Some StreamlitAPIException,
      render (StError ([10060] @ str '' GOOGLE_API_KEY not set in .env file.'')) (w\<lparr>page := []\<rparr>))"
  by (simp add: startup_def Let_def set_page_config_def)

lemma startup_absent_lenient:
  "py_not (GOOGLE_API_KEY e) \<Longrightarrow> \<not> page_config_first e \<Longrightarrow>
   startup e w =
     (None,
      render (StTitle ([128196] @ str '' PRD & '' @ [128640] @ str '' Implementation Plan Generator''))
        (render (StError ([10060] @ str '' GOOGLE_API_KEY not set in .env file.''))
           (w\<lparr>page := []\<rparr>)))"
  by (simp add: startup_def Let_def set_page_config_def)

lemma tab1_frame:
  "error_messages (page (snd (tab1 gc now i w))) = error_messages (page w)"
  "genai_api_key (snd (tab1 gc now i w)) = genai_api_key w"
  unfolding tab1_def st_markdown_def Let_def
  by (simp_all add: case_prod_beta generate_prd_snd error_messages_append split: sum.split)

lemma tab2_frame:
  "error_messages (page (snd (tab2 gc now i w))) = error_messages (page w)"
  "genai_api_key (snd (tab2 gc now i w)) = genai_api_key w"
  unfolding tab2_def st_markdown_def Let_def
  by (simp_all add: case_prod_beta generate_plan_snd error_messages_append split: sum.split)

lemma script_snd:
  "snd (script e i w) =
     (case startup e w of
        (Some ex, w1) \<Rightarrow> w1
      | (None, w3) \<Rightarrow>
          (case fst (tab1 (generate_content e) (now_tab1 e) i w3) of
             Some ex \<Rightarrow> snd (tab1 (generate_content e) (now_tab1 e) i w3)
           | None \<Rightarrow> snd (tab2 (generate_content e) (now_tab2 e) i
                            (snd (tab1 (generate_content e) (now_tab1 e) i w3)))))"
  unfolding script_def
  by (simp add: case_prod_beta split: option.split)

lemma tab1_last_prd_unclicked:
  "\<not> in_generate_prd i \<Longrightarrow> prd_input_default (snd (tab1 gc now i w)) = prd_input_default w"
  by (simp add: prd_input_default_def tab1_last_prd prd_completed_def)

lemma tab1_unclicked:
  "\<not> in_generate_prd i \<Longrightarrow> fst (tab1 gc now i w) = None"
  by (simp add: tab1_def Let_def)

lemma script_absent_strict:
  assumes "py_not (GOOGLE_API_KEY e)" "page_config_first e"
  shows "fst (script e i w) = Some StreamlitAPIException"
    and "requests (snd (script e i w)) = requests w"
    and "error_messages (page (snd (script e i w)))
           = [[10060] @ str '' GOOGLE_API_KEY not set in .env file.'']"
    and "genai_api_key (snd (script e i w)) = genai_api_key w"
  using assms by (simp_all add: script_def startup_absent_strict)

lemma script_absent_lenient:
  assumes "py_not (GOOGLE_API_KEY e)" "\<not> page_config_first e"
  shows "error_messages (page (snd (script e i w)))
           = [[10060] @ str '' GOOGLE_API_KEY not set in .env file.'']"
    and "genai_api_key (snd (script e i w)) = genai_api_key w"
    and "in_generate_prd i \<Longrightarrow> in_app_name i \<noteq> [] \<Longrightarrow> in_app_idea i \<noteq> [] \<Longrightarrow>
         prefix (requests w @ [(str ''gemini-1.5-flash'',
                   prd_prompt (in_app_name i) (in_app_idea i) (app_type_label (in_app_type i))
                     (language_label (in_language i)))])
           (requests (snd (script e i w)))"
    and "\<not> in_generate_plan i \<Longrightarrow> in_generate_prd i \<Longrightarrow> in_app_name i \<noteq> [] \<Longrightarrow>
         in_app_idea i \<noteq> [] \<Longrightarrow>
         requests (snd (script e i w)) =
           requests w @ [(str ''gemini-1.5-flash'',
                   prd_prompt (in_app_name i) (in_app_idea i) (app_type_label (in_app_type i))
                     (language_label (in_language i)))]"
    and "\<not> in_generate_prd i \<Longrightarrow> in_generate_plan i \<Longrightarrow>
         strip (text_area (prd_input_default w) (in_prd_input i)) \<noteq> [] \<Longrightarrow>
         requests (snd (script e i w)) =
           requests w @ [(str ''gemini-1.5-flash'',
                   plan_prompt (text_area (prd_input_default w) (in_prd_input i))
                     (language_label (in_plan_language i)))]"
proof -
  note st = startup_absent_lenient [OF assms]
  have dflt: "prd_input_default (render x v) = prd_input_default v"
    "prd_input_default (v\<lparr>page := p\<rparr>) = prd_input_default v" for x v p
    by (simp_all add: prd_input_default_def)
  show "error_messages (page (snd (script e i w)))
           = [[10060] @ str '' GOOGLE_API_KEY not set in .env file.'']"
    by (simp add: script_snd st tab1_frame tab2_frame split: option.split)
  show "genai_api_key (snd (script e i w)) = genai_api_key w"
    by (simp add: script_snd st tab1_frame tab2_frame split: option.split)
  show "prefix (requests w @ [(str ''gemini-1.5-flash'',
                   prd_prompt (in_app_name i) (in_app_idea i) (app_type_label (in_app_type i))
                     (language_label (in_language i)))])
           (requests (snd (script e i w)))"
    if "in_generate_prd i" "in_app_name i \<noteq> []" "in_app_idea i \<noteq> []"
    using that by (simp add: script_snd st tab1_requests tab2_requests split: option.split)
  show "requests (snd (script e i w)) =
           requests w @ [(str ''gemini-1.5-flash'',
                   prd_prompt (in_app_name i) (in_app_idea i) (app_type_label (in_app_type i))
                     (language_label (in_language i)))]"
    if "\<not> in_generate_plan i" "in_generate_prd i" "in_app_name i \<noteq> []" "in_app_idea i \<noteq> []"
    using that by (simp add: script_snd st tab1_requests tab2_requests split: option.split)
  show "requests (snd (script e i w)) =
           requests w @ [(str ''gemini-1.5-flash'',
                   plan_prompt (text_area (prd_input_default w) (in_prd_input i))
                     (language_label (in_plan_language i)))]"
    if "\<not> in_generate_prd i" "in_generate_plan i"
      "strip (text_area (prd_input_default w) (in_prd_input i)) \<noteq> []"
    using that
    by (simp add: script_snd st tab1_requests tab2_requests tab1_last_prd_unclicked dflt
          tab1_unclicked)
qed

lemma session_absent_strict:
  "list_all (\<lambda>(e, i). py_not (GOOGLE_API_KEY e) \<and> page_config_first e) steps \<Longrightarrow>
   requests (session steps w) = requests w"
proof (induction steps arbitrary: w)
  case Nil
  then show ?case by simp
next
  case (Cons step steps)
  obtain e i where step: "step = (e, i)" by (cases step)
  from Cons.prems step have here: "py_not (GOOGLE_API_KEY e)" "page_config_first e"
    and rest: "list_all (\<lambda>(e, i). py_not (GOOGLE_API_KEY e) \<and> page_config_first e) steps"
    by simp_all
  have "requests (session steps (snd (script e i w))) = requests (snd (script e i w))"
    using Cons.IH [OF rest] .
  also have "\<dots> = requests w"
    using script_absent_strict(2) [OF here] .
  finally show ?case using step by simp
qed

section \<open>The generation functions\<close>

text \<open>
  C2.  Whenever the provider answers the call with a falsy object (\<open>None\<close>, an empty
  value), \<open>generate_prd\<close> returns the fixed placeholder text, and so does
  \<open>generate_plan\<close>; neither raises.
\<close>

theorem generate_falsy_response_placeholder:
  "(gc (genai_api_key w) (requests w) (str ''gemini-1.5-flash'') (prd_prompt n d c l) = Inr r
      \<and> \<not> response_bool r
    \<longrightarrow> fst (generate_prd gc n d c l w) = Inr ([9888, 65039] @ str '' No response from Gemini.''))
   \<and> (gc (genai_api_key w) (requests w) (str ''gemini-1.5-flash'') (plan_prompt t l') = Inr r'
      \<and> \<not> response_bool r'
    \<longrightarrow> fst (generate_plan gc t l' w) = Inr ([9888, 65039] @ str '' No response from Gemini.''))"
  by (simp add: generate_prd_def generate_plan_def Let_def)

theorem generate_falsy_response_placeholder_witness:
  "fst (generate_prd null_provider (str ''TaskFlow'') (str ''A todo app'') (str ''Web App'')
          (str ''English'') world0)
     = Inr ([9888, 65039] @ str '' No response from Gemini.'')
   \<and> fst (generate_plan empty_provider (str ''# TaskFlow'') (str ''Hindi'') world0)
     = Inr ([9888, 65039] @ str '' No response from Gemini.'')"
  using generate_falsy_response_placeholder
    [of null_provider world0 "str ''TaskFlow''" "str ''A todo app''" "str ''Web App''"
        "str ''English''" py_None "str ''# TaskFlow''" "str ''Hindi''" py_None]
    generate_falsy_response_placeholder
    [of empty_provider world0 "str ''TaskFlow''" "str ''A todo app''" "str ''Web App''"
        "str ''English''" py_empty_str "str ''# TaskFlow''" "str ''Hindi''" py_empty_str]
  by (simp add: null_provider_def py_None_def empty_provider_def py_empty_str_def)

text \<open>
  C5.  The prompt \<open>generate_prd\<close> sends holds the name and the description as they were
  given: each is a contiguous part of the prompt, character for character.
\<close>

theorem prd_prompt_contains_name_and_description:
  "requests (snd (generate_prd gc n d c l w))
     = requests w @ [(str ''gemini-1.5-flash'', prd_prompt n d c l)]
   \<and> sublist n (prd_prompt n d c l) \<and> sublist d (prd_prompt n d c l)"
proof -
  have "sublist n (prd_prompt n d c l)"
    unfolding prd_prompt_def by (rule sublist_appendI)
  moreover have "sublist d (prd_prompt n d c l)"
    unfolding prd_prompt_def sublist_def by (metis append.assoc)
  ultimately show ?thesis by (simp add: generate_prd_snd)
qed

text \<open>
  C7.  The prompt depends on the arguments alone: for given name, description, type and
  language there is one prompt that every call of \<open>generate_prd\<close> sends, whatever the
  provider and the state of the world; likewise for \<open>generate_plan\<close> and its two arguments.
\<close>

theorem prompts_deterministic:
  "(\<exists>p. \<forall>gc w. requests (snd (generate_prd gc n d c l w))
              = requests w @ [(str ''gemini-1.5-flash'', p)])
   \<and> (\<exists>q. \<forall>gc w. requests (snd (generate_plan gc t l' w))
              = requests w @ [(str ''gemini-1.5-flash'', q)])"
  by (auto simp: generate_prd_snd generate_plan_snd)

section \<open>Validation of the submissions\<close>

text \<open>
  C3.  A PRD submission (tab 1 with its button clicked) with an empty name or an empty
  description ends with the warning and sends no request; with both fields non-empty it
  sends exactly one request, the PRD prompt.
\<close>

theorem prd_submission_call_count:
  assumes "in_generate_prd i"
  shows "(in_app_name i = [] \<or> in_app_idea i = [] \<longrightarrow>
            fst (tab1 gc now i w) = None
            \<and> requests (snd (tab1 gc now i w)) = requests w
            \<and> page (snd (tab1 gc now i w)) =
                page w @ [StSubheader ([128196] @ str '' Generate Product Requirements Document (PRD)''),
                          StWarning ([9888, 65039] @ str '' Please enter both App Name and Description.'')])
         \<and> (in_app_name i \<noteq> [] \<and> in_app_idea i \<noteq> [] \<longrightarrow>
            requests (snd (tab1 gc now i w)) =
              requests w @ [(str ''gemini-1.5-flash'',
                 prd_prompt (in_app_name i) (in_app_idea i) (app_type_label (in_app_type i))
                   (language_label (in_language i)))])"
  using assms by (auto simp: tab1_rejected tab1_requests)

theorem prd_submission_call_count_witness:
  "requests (snd (tab1 fixed_provider a_moment taskflow world0)) =
     [(str ''gemini-1.5-flash'',
       prd_prompt (str ''TaskFlow'') (str ''A todo app'') (str ''Web App'') (str ''English''))]
   \<and> requests (snd (tab1 fixed_provider a_moment (taskflow\<lparr>in_app_name := []\<rparr>) world0)) = []
   \<and> page (snd (tab1 fixed_provider a_moment (taskflow\<lparr>in_app_name := []\<rparr>) world0)) =
       [StSubheader ([128196] @ str '' Generate Product Requirements Document (PRD)''),
        StWarning ([9888, 65039] @ str '' Please enter both App Name and Description.'')]"
  using prd_submission_call_count [of taskflow fixed_provider a_moment world0]
    prd_submission_call_count [of "taskflow\<lparr>in_app_name := []\<rparr>" fixed_provider a_moment world0]
  by (simp add: taskflow_def world0_def)

text \<open>
  C8.  A plan submission whose document is empty shows the warning, sends no request,
  renders no result and leaves the entry \<open>last_prd\<close> of the session state as it was.
\<close>

theorem empty_plan_submission_rejected:
  assumes "in_generate_plan i"
    and "text_area (prd_input_default w) (in_prd_input i) = []"
  shows "fst (tab2 gc now i w) = None
         \<and> requests (snd (tab2 gc now i w)) = requests w
         \<and> page (snd (tab2 gc now i w)) =
             page w @ [StSubheader ([128640] @ str '' Generate Project Implementation Plan''),
                       StWrite (str ''Paste a PRD below or use the one you just generated in Tab 1.''),
                       StWarning ([9888, 65039] @ str '' Please provide a PRD to generate a plan.'')]
         \<and> session_state (snd (tab2 gc now i w)) ''last_prd'' = session_state w ''last_prd''"
proof -
  have "strip (text_area (prd_input_default w) (in_prd_input i)) = []"
    using assms(2) by (simp add: strip_def)
  then show ?thesis using assms(1) by (simp add: tab2_rejected)
qed

theorem empty_plan_submission_rejected_witness:
  "fst (tab2 fixed_provider a_moment (taskflow\<lparr>in_generate_plan := True\<rparr>) world0) = None
   \<and> requests (snd (tab2 fixed_provider a_moment (taskflow\<lparr>in_generate_plan := True\<rparr>) world0)) = []
   \<and> page (snd (tab2 fixed_provider a_moment (taskflow\<lparr>in_generate_plan := True\<rparr>) world0)) =
       [StSubheader ([128640] @ str '' Generate Project Implementation Plan''),
        StWrite (str ''Paste a PRD below or use the one you just generated in Tab 1.''),
        StWarning ([9888, 65039] @ str '' Please provide a PRD to generate a plan.'')]
   \<and> session_state (snd (tab2 fixed_provider a_moment (taskflow\<lparr>in_generate_plan := True\<rparr>) world0))
        ''last_prd'' = None"
  using empty_plan_submission_rejected
    [of "taskflow\<lparr>in_generate_plan := True\<rparr>" world0 fixed_provider a_moment]
  by (simp add: taskflow_def world0_def text_area_def prd_input_default_def)

text \<open>
  C10.  The two checks differ.  A PRD submission whose name and description are
  non-empty and hold nothing but whitespace passes the check of tab 1, and the request
  is sent; a plan submission whose document holds nothing but whitespace is stopped by
  the check of tab 2, with the warning and no request.
\<close>

theorem whitespace_only_submissions:
  "(in_generate_prd i \<and> in_app_name i \<noteq> [] \<and> in_app_idea i \<noteq> []
      \<and> (\<forall>c\<in>set (in_app_name i). isspace c) \<and> (\<forall>c\<in>set (in_app_idea i). isspace c)
    \<longrightarrow> requests (snd (tab1 gc now i w)) =
          requests w @ [(str ''gemini-1.5-flash'',
             prd_prompt (in_app_name i) (in_app_idea i) (app_type_label (in_app_type i))
               (language_label (in_language i)))])
   \<and> (in_generate_plan i'
      \<and> (\<forall>c\<in>set (text_area (prd_input_default w') (in_prd_input i')). isspace c)
    \<longrightarrow> fst (tab2 gc' now' i' w') = None
        \<and> requests (snd (tab2 gc' now' i' w')) = requests w'
        \<and> page (snd (tab2 gc' now' i' w')) =
             page w' @ [StSubheader ([128640] @ str '' Generate Project Implementation Plan''),
                       StWrite (str ''Paste a PRD below or use the one you just generated in Tab 1.''),
                       StWarning ([9888, 65039] @ str '' Please provide a PRD to generate a plan.'')])"
  by (simp add: tab1_requests tab2_rejected strip_eq_Nil)

theorem whitespace_only_submissions_witness:
  "requests (snd (tab1 fixed_provider a_moment
       (taskflow\<lparr>in_app_name := str '' '', in_app_idea := str ''  ''\<rparr>) world0)) =
     [(str ''gemini-1.5-flash'',
       prd_prompt (str '' '') (str ''  '') (str ''Web App'') (str ''English''))]
   \<and> requests (snd (tab2 fixed_provider a_moment
       (taskflow\<lparr>in_prd_input := Some (str '' \<newline> ''), in_generate_plan := True\<rparr>) world0)) = []
   \<and> page (snd (tab2 fixed_provider a_moment
       (taskflow\<lparr>in_prd_input := Some (str '' \<newline> ''), in_generate_plan := True\<rparr>) world0)) =
       [StSubheader ([128640] @ str '' Generate Project Implementation Plan''),
        StWrite (str ''Paste a PRD below or use the one you just generated in Tab 1.''),
        StWarning ([9888, 65039] @ str '' Please provide a PRD to generate a plan.'')]"
  using whitespace_only_submissions
    [of "taskflow\<lparr>in_app_name := str '' '', in_app_idea := str ''  ''\<rparr>"
        fixed_provider a_moment world0
        "taskflow\<lparr>in_prd_input := Some (str '' \<newline> ''), in_generate_plan := True\<rparr>"
        world0 fixed_provider a_moment]
  by (simp add: taskflow_def world0_def text_area_def str_def isspace_def)

section \<open>The hand-off from tab 1 to tab 2\<close>

text \<open>
  C9.  Tab 2 never changes the entry \<open>last_prd\<close> of the session state, whatever it does
  (check, generation, export, exception).  Tab 1 changes it only when a PRD generation
  has returned a text and \<open>st.markdown\<close> has shown it, to that text; a text that
  \<open>st.markdown\<close> refuses ends the run before the entry is written.  The same holds for a
  whole run of the script.
\<close>

theorem only_prd_generation_writes_handoff:
  "session_state (snd (tab2 gc now i w)) ''last_prd'' = session_state w ''last_prd''
   \<and> session_state (snd (tab1 gc now i w)) ''last_prd'' =
       (case prd_completed gc i w of
          None \<Rightarrow> session_state w ''last_prd''
        | Some R \<Rightarrow> if displayable R then Some R else session_state w ''last_prd'')
   \<and> session_state (snd (script e i w)) ''last_prd'' =
       (case prd_result e i w of
          None \<Rightarrow> session_state w ''last_prd''
        | Some R \<Rightarrow> if displayable R then Some R else session_state w ''last_prd'')"
  by (simp add: tab2_last_prd tab1_last_prd script_last_prd)

text \<open>
  C4.  Once a run has completed a PRD generation with a text \<open>R\<close> that was shown, the
  default of the plan input is \<open>R\<close>, and it stays \<open>R\<close> through every later run that
  completes no PRD generation.  Tab 2 works on it: while the user has typed nothing into
  the text area, a plan submission sends the plan prompt built from \<open>R\<close> (or is stopped
  by the check when \<open>R\<close> is blank).  A later run that completes a PRD generation with a
  shown text \<open>R'\<close> makes the default \<open>R'\<close>.
\<close>

theorem handoff_default_is_last_prd:
  assumes "prd_result e i w = Some R"
    and "displayable R"
    and "no_prd_result steps (snd (script e i w))"
  shows "prd_input_default (snd (script e i w)) = R
         \<and> prd_input_default (session steps (snd (script e i w))) = R
         \<and> (in_prd_input i2 = None \<longrightarrow>
              text_area (prd_input_default (session steps (snd (script e i w)))) (in_prd_input i2) = R
              \<and> requests (snd (tab2 gc2 now2 i2 (session steps (snd (script e i w))))) =
                  (if in_generate_plan i2 \<and> strip R \<noteq> []
                   then requests (session steps (snd (script e i w))) @
                          [(str ''gemini-1.5-flash'',
                            plan_prompt R (language_label (in_plan_language i2)))]
                   else requests (session steps (snd (script e i w)))))
         \<and> (prd_result e' i' (session steps (snd (script e i w))) = Some R' \<and> displayable R' \<longrightarrow>
              prd_input_default (snd (script e' i' (session steps (snd (script e i w))))) = R')"
proof -
  have now: "session_state (snd (script e i w)) ''last_prd'' = Some R"
    using script_last_prd [of e i w] assms(1,2) by simp
  have later: "session_state (session steps (snd (script e i w))) ''last_prd'' = Some R"
    using session_no_prd_result [OF assms(3)] now by simp
  have dflt: "prd_input_default (session steps (snd (script e i w))) = R"
    using later by (simp add: prd_input_default_def)
  have again: "prd_result e' i' v = Some R' \<Longrightarrow> displayable R' \<Longrightarrow>
      session_state (snd (script e' i' v)) ''last_prd'' = Some R'" for v
    using script_last_prd [of e' i' v] by simp
  have plan: "in_prd_input i2 = None \<Longrightarrow>
      text_area (prd_input_default (session steps (snd (script e i w)))) (in_prd_input i2) = R"
    using dflt by (simp add: text_area_def)
  show ?thesis
    using now dflt again plan
    by (simp add: prd_input_default_def tab2_requests)
qed

theorem handoff_default_is_last_prd_witness:
  "prd_input_default (snd (script keyed_env taskflow world0)) = str ''# TaskFlow''
   \<and> prd_input_default
        (session [(keyed_env, plan_click),
                  (keyed_env\<lparr>generate_content := failing_provider\<rparr>, taskflow),
                  (keyless_env, plan_click)]
           (snd (script keyed_env taskflow world0))) = str ''# TaskFlow''
   \<and> requests (snd (tab2 fixed_provider a_moment plan_click
        (session [(keyed_env, plan_click),
                  (keyed_env\<lparr>generate_content := failing_provider\<rparr>, taskflow),
                  (keyless_env, plan_click)]
           (snd (script keyed_env taskflow world0))))) =
       requests
        (session [(keyed_env, plan_click),
                  (keyed_env\<lparr>generate_content := failing_provider\<rparr>, taskflow),
                  (keyless_env, plan_click)]
           (snd (script keyed_env taskflow world0))) @
       [(str ''gemini-1.5-flash'', plan_prompt (str ''# TaskFlow'') (str ''English''))]
   \<and> prd_input_default (snd (script (keyed_env\<lparr>generate_content := null_provider\<rparr>) taskflow
        (session [(keyed_env, plan_click),
                  (keyed_env\<lparr>generate_content := failing_provider\<rparr>, taskflow),
                  (keyless_env, plan_click)]
           (snd (script keyed_env taskflow world0)))))
       = [9888, 65039] @ str '' No response from Gemini.''"
proof -
  have st: "startup (keyed_env\<lparr>generate_content := g\<rparr>) v =
      (None, render (StTitle ([128196] @ str '' PRD & '' @ [128640]
                               @ str '' Implementation Plan Generator''))
               (v\<lparr>page := [], genai_api_key := Some (str ''secret'')\<rparr>))" for g v
    by (simp add: startup_def keyed_env_def Let_def py_not_def set_page_config_def)
  have same: "keyed_env\<lparr>generate_content := fixed_provider\<rparr> = keyed_env"
    by (simp add: keyed_env_def)
  have gc: "generate_content keyed_env = fixed_provider"
    by (simp add: keyed_env_def)
  have a: "prd_result keyed_env taskflow world0 = Some (str ''# TaskFlow'')"
    using st [of fixed_provider world0]
    by (simp add: same gc prd_result_def prd_completed_def taskflow_def generate_prd_def
          fixed_provider_def gemini_response_def)
  have d: "displayable (str ''# TaskFlow'')"
    by (simp add: displayable_def str_def utf8_def)
  have d': "displayable ([9888, 65039] @ str '' No response from Gemini.'')"
    by (simp add: displayable_def str_def utf8_def)
  have sp: "strip (str ''# TaskFlow'') \<noteq> []"
    by (simp add: strip_def str_def isspace_def)
  have none: "prd_result e plan_click v = None" for e v
    by (cases "startup e v")
       (simp add: prd_result_def prd_completed_def plan_click_def taskflow_def split: option.split)
  have failed: "prd_result (keyed_env\<lparr>generate_content := failing_provider\<rparr>) taskflow v = None"
    for v
    by (simp add: prd_result_def st prd_completed_def taskflow_def generate_prd_def
          failing_provider_def)
  have b: "no_prd_result [(keyed_env, plan_click),
                          (keyed_env\<lparr>generate_content := failing_provider\<rparr>, taskflow),
                          (keyless_env, plan_click)] v" for v
    by (simp add: none failed)
  have c: "prd_result (keyed_env\<lparr>generate_content := null_provider\<rparr>) taskflow v
            = Some ([9888, 65039] @ str '' No response from Gemini.'')" for v
    by (simp add: prd_result_def st prd_completed_def taskflow_def generate_prd_def
          null_provider_def py_None_def)
  have p: "in_prd_input plan_click = None" "in_generate_plan plan_click"
    "language_label (in_plan_language plan_click) = str ''English''"
    by (simp_all add: plan_click_def taskflow_def)
  show ?thesis
    using handoff_default_is_last_prd [OF a d b,
        of plan_click fixed_provider a_moment
           "keyed_env\<lparr>generate_content := null_provider\<rparr>" taskflow
           "[9888, 65039] @ str '' No response from Gemini.''"] c d' sp p
    by simp
qed

section \<open>Export\<close>

text \<open>
  C6.  A PRD submission that passes the check and whose run reaches the export offers the
  file under the name: the app name with every space turned into an underscore, then
  \<open>_PRD_\<close>, then the time stamp, then \<open>.md\<close> for Markdown and \<open>.txt\<close> for Text.  A
  plan submission that reaches the export offers \<open>ImplementationPlan_\<close>, the time stamp
  and \<open>.md\<close>.  The time stamp of a valid date and time has the shape
  \<open>YYYYMMDD_HHMMSS\<close>.
\<close>

theorem export_file_names:
  "(in_generate_prd i \<and> in_app_name i \<noteq> [] \<and> in_app_idea i \<noteq> []
      \<and> fst (tab1 gc now i w) = None \<longrightarrow>
      file_names (page (snd (tab1 gc now i w))) =
        file_names (page w) @
          [replace 32 95 (in_app_name i) @ str ''_PRD_'' @ strftime now @
             (if in_export_format i = Markdown then str ''.md'' else str ''.txt'')])
   \<and> (in_generate_plan i' \<and> strip (text_area (prd_input_default w') (in_prd_input i')) \<noteq> []
      \<and> fst (tab2 gc' now' i' w') = None \<longrightarrow>
      file_names (page (snd (tab2 gc' now' i' w'))) =
        file_names (page w') @ [str ''ImplementationPlan_'' @ strftime now' @ str ''.md''])
   \<and> (valid_datetime d \<longrightarrow> timestamp_format (strftime d))
   \<and> length (replace 32 95 s) = length s
   \<and> (\<forall>k<length s. replace 32 95 s ! k = (if s ! k = 32 then 95 else s ! k))"
  using replace_pointwise [of 32 95 s]
  by (simp add: tab1_file_names tab2_file_names strftime_format)


theorem export_file_names_witness:
  "file_names (page (snd (tab1 fixed_provider a_moment taskflow world0)))
     = [str ''TaskFlow_PRD_20240309_140507.md'']
   \<and> file_names (page (snd (tab1 fixed_provider a_moment
         (taskflow\<lparr>in_app_name := str ''My Task Flow'', in_export_format := Text\<rparr>) world0)))
     = [str ''My_Task_Flow_PRD_20240309_140507.txt'']
   \<and> file_names (page (snd (tab2 fixed_provider a_moment
         (plan_click\<lparr>in_prd_input := Some (str ''# TaskFlow'')\<rparr>) world0)))
     = [str ''ImplementationPlan_20240309_140507.md'']
   \<and> timestamp_format (strftime a_moment)
   \<and> replace 32 95 (str ''My Task Flow'') = str ''My_Task_Flow''"
proof -
  have enc: "encode (str ''# TaskFlow'') = Inr (map char_of (str ''# TaskFlow''))"
    by (simp add: str_def utf8_def)
  have t1: "fst (tab1 fixed_provider a_moment i world0) = None"
    if "in_generate_prd i" "in_app_name i \<noteq> []" "in_app_idea i \<noteq> []" for i
    using that unfolding tab1_def st_markdown_def Let_def
    by (simp add: generate_prd_def fixed_provider_def gemini_response_def enc)
  have t2: "fst (tab2 fixed_provider a_moment
               (plan_click\<lparr>in_prd_input := Some (str ''# TaskFlow'')\<rparr>) world0) = None"
    unfolding tab2_def st_markdown_def Let_def
    by (simp add: generate_plan_def fixed_provider_def gemini_response_def enc plan_click_def
          taskflow_def text_area_def)
  have ts: "strftime a_moment = str ''20240309_140507''"
    by (simp add: strftime_def a_moment_def digits4_def digits2_def str_def)
  have r: "replace 32 95 (str ''My Task Flow'') = str ''My_Task_Flow''"
    "replace 32 95 (str ''TaskFlow'') = str ''TaskFlow''"
    by (simp_all add: replace_def str_def)
  have sp: "strip (str ''# TaskFlow'') \<noteq> []"
    by (simp add: strip_def str_def isspace_def)
  have v: "valid_datetime a_moment"
    by (simp add: valid_datetime_def a_moment_def)
  have cat: "str a @ str b = str (a @ b)" for a b
    by (simp add: str_def)
  show ?thesis
    using export_file_names [of taskflow fixed_provider a_moment world0
        "plan_click\<lparr>in_prd_input := Some (str ''# TaskFlow'')\<rparr>" world0 fixed_provider a_moment
        a_moment "str ''My Task Flow''"]
      export_file_names [of "taskflow\<lparr>in_app_name := str ''My Task Flow'', in_export_format := Text\<rparr>"
        fixed_provider a_moment world0
        "plan_click\<lparr>in_prd_input := Some (str ''# TaskFlow'')\<rparr>" world0 fixed_provider a_moment
        a_moment "str ''My Task Flow''"]
      t1 [of taskflow]
      t1 [of "taskflow\<lparr>in_app_name := str ''My Task Flow'', in_export_format := Text\<rparr>"]
      t2 sp v
    by (simp add: taskflow_def plan_click_def world0_def text_area_def ts r cat)
qed

section \<open>The missing credential\<close>

text \<open>
  C1, as the script has it.  The script reports a missing \<open>GOOGLE_API_KEY\<close> and goes on:
  no line of it makes the generation depend on the key.  With the key absent (unset or
  empty), every run shows the error box exactly once and never calls \<open>genai.configure\<close>.
  Where Streamlit refuses \<open>set_page_config\<close> after the error box, every run ends there,
  and no request is ever sent, whatever the user does.  Where Streamlit accepts it, the
  submissions go on as with a key: a PRD submission with both fields non-empty sends its
  request, and so does a plan submission with a non-blank document.
\<close>

theorem missing_credential:
  "(py_not (GOOGLE_API_KEY e) \<longrightarrow>
      error_messages (page (snd (script e i w)))
        = [[10060] @ str '' GOOGLE_API_KEY not set in .env file.'']
      \<and> genai_api_key (snd (script e i w)) = genai_api_key w
      \<and> (page_config_first e \<longrightarrow>
           fst (script e i w) = Some StreamlitAPIException
           \<and> requests (snd (script e i w)) = requests w)
      \<and> (\<not> page_config_first e \<and> in_generate_prd i \<and> in_app_name i \<noteq> []
           \<and> in_app_idea i \<noteq> [] \<longrightarrow>
           prefix (requests w @ [(str ''gemini-1.5-flash'',
                     prd_prompt (in_app_name i) (in_app_idea i) (app_type_label (in_app_type i))
                       (language_label (in_language i)))])
             (requests (snd (script e i w))))
      \<and> (\<not> page_config_first e \<and> \<not> in_generate_prd i \<and> in_generate_plan i
           \<and> strip (text_area (prd_input_default w) (in_prd_input i)) \<noteq> [] \<longrightarrow>
           requests (snd (script e i w)) =
             requests w @ [(str ''gemini-1.5-flash'',
                     plan_prompt (text_area (prd_input_default w) (in_prd_input i))
                       (language_label (in_plan_language i)))]))
   \<and> (list_all (\<lambda>(e, i). py_not (GOOGLE_API_KEY e) \<and> page_config_first e) steps \<longrightarrow>
        requests (session steps w') = requests w')"
proof (cases "page_config_first e")
  case True
  then show ?thesis
    by (simp add: script_absent_strict session_absent_strict)
next
  case False
  then show ?thesis
    by (simp add: script_absent_lenient(1,2,3,5) session_absent_strict)
qed

theorem missing_credential_counterexample:
  "py_not (GOOGLE_API_KEY keyless_env)
   \<and> requests (snd (script keyless_env taskflow world0)) =
       [(str ''gemini-1.5-flash'',
         prd_prompt (str ''TaskFlow'') (str ''A todo app'') (str ''Web App'') (str ''English''))]"
proof -
  have k: "py_not (GOOGLE_API_KEY keyless_env)" "\<not> page_config_first keyless_env"
    by (simp_all add: keyless_env_def py_not_def)
  show ?thesis
    using script_absent_lenient(4) [OF k, of taskflow world0] k(1)
    by (simp add: taskflow_def world0_def)
qed

theorem missing_credential_witness:
  "error_messages (page (snd (script keyless_env plan_click world0)))
     = [[10060] @ str '' GOOGLE_API_KEY not set in .env file.'']
   \<and> genai_api_key (snd (script keyless_env plan_click world0)) = None
   \<and> fst (script (keyless_env\<lparr>page_config_first := True\<rparr>) taskflow world0)
       = Some StreamlitAPIException
   \<and> requests (snd (script (keyless_env\<lparr>page_config_first := True\<rparr>) taskflow world0)) = []
   \<and> prefix [(str ''gemini-1.5-flash'',
         prd_prompt (str ''TaskFlow'') (str ''A todo app'') (str ''Web App'') (str ''English''))]
        (requests (snd (script keyless_env taskflow world0)))
   \<and> requests (snd (script keyless_env (plan_click\<lparr>in_prd_input := Some (str ''# TaskFlow'')\<rparr>)
        world0)) =
       [(str ''gemini-1.5-flash'', plan_prompt (str ''# TaskFlow'') (str ''English''))]
   \<and> requests (session [(keyless_env\<lparr>page_config_first := True\<rparr>, taskflow),
                         (keyless_env\<lparr>page_config_first := True\<rparr>, plan_click)] world0) = []"
proof -
  have sp: "strip (str ''# TaskFlow'') \<noteq> []"
    by (simp add: strip_def str_def isspace_def)
  show ?thesis
    using missing_credential [of keyless_env plan_click world0 "[]" world0]
      missing_credential [of "keyless_env\<lparr>page_config_first := True\<rparr>" taskflow world0
        "[(keyless_env\<lparr>page_config_first := True\<rparr>, taskflow),
          (keyless_env\<lparr>page_config_first := True\<rparr>, plan_click)]" world0]
      missing_credential [of keyless_env taskflow world0 "[]" world0]
      missing_credential [of keyless_env "plan_click\<lparr>in_prd_input := Some (str ''# TaskFlow'')\<rparr>"
        world0 "[]" world0] sp
    by (simp add: keyless_env_def py_not_def taskflow_def plan_click_def world0_def
          text_area_def prd_input_default_def)
qed

end
